theory Spec2Isabelle
  imports Main "HOL-Library.AList" "HOL-Library.Sublist"
begin

section \<open>JavaScript values\<close>

text \<open>
  The values that cross the interface of \<^verbatim>\<open>src/api.js\<close>. An object is the list of
  its own properties in insertion order; a string is the list of its code units, each
  \<^typ>\<open>char\<close> standing for one code unit below 256. Numbers are the integers, which is
  all that \<^verbatim>\<open>Date.now()\<close> produces. A \<^verbatim>\<open>Date\<close> object carries its time in
  milliseconds.
\<close>

datatype jsval =
    JUndefined
  | JNull
  | JBool bool
  | JNum int
  | JStr string
  | JDate int
  | JArr "jsval list"
  | JObj "(string \<times> jsval) list"

type_synonym obj = "(string \<times> jsval) list"

text \<open>\<^verbatim>\<open>if (v)\<close>, \<^verbatim>\<open>!v\<close> and \<^verbatim>\<open>a || b\<close> test truthiness.\<close>

fun truthy :: "jsval \<Rightarrow> bool" where
  "truthy JUndefined = False"
| "truthy JNull = False"
| "truthy (JBool b) = b"
| "truthy (JNum n) = (n \<noteq> 0)"
| "truthy (JStr s) = (s \<noteq> [])"
| "truthy (JDate t) = True"
| "truthy (JArr xs) = True"
| "truthy (JObj ps) = True"

text \<open>\<^verbatim>\<open>o.k\<close>: the property's value, \<^verbatim>\<open>undefined\<close> when the object has none.\<close>

definition get_prop :: "obj \<Rightarrow> string \<Rightarrow> jsval" where
  "get_prop ob k = (case map_of ob k of None \<Rightarrow> JUndefined | Some v \<Rightarrow> v)"

text \<open>
  \<^verbatim>\<open>{...o, k: v}\<close> and \<^verbatim>\<open>o.k = v\<close>: an existing property keeps its place and takes
  the new value, a new one goes to the end.
\<close>

definition set_prop :: "string \<Rightarrow> jsval \<Rightarrow> obj \<Rightarrow> obj" where
  "set_prop k v ob = AList.update k v ob"

text \<open>\<^verbatim>\<open>data.length === 0\<close> and \<^verbatim>\<open>data[0]\<close>, on a value already known to be truthy.\<close>

fun length_is_zero :: "jsval \<Rightarrow> bool" where
  "length_is_zero (JArr xs) = (xs = [])"
| "length_is_zero (JStr s) = (s = [])"
| "length_is_zero (JObj ps) = (map_of ps ''length'' = Some (JNum 0))"
| "length_is_zero v = False"

fun index0 :: "jsval \<Rightarrow> jsval" where
  "index0 (JArr []) = JUndefined"
| "index0 (JArr (x # xs)) = x"
| "index0 (JStr []) = JUndefined"
| "index0 (JStr (c # cs)) = JStr [c]"
| "index0 (JObj ps) = get_prop ps ''0''"
| "index0 v = JUndefined"

section \<open>Strings\<close>

text \<open>
  \<^verbatim>\<open>String.prototype.toLowerCase\<close> on code units below 256: the letters A to Z and the
  capital letters of the Latin-1 block (0xC0 to 0xDE, the multiplication sign 0xD7 apart)
  move up by 32, every other code unit stays.
\<close>

definition lower_char :: "char \<Rightarrow> char" where
  "lower_char c =
     (let n = (of_char c :: nat)
      in if (65 \<le> n \<and> n \<le> 90) \<or> (192 \<le> n \<and> n \<le> 222 \<and> n \<noteq> 215)
         then char_of (n + 32) else c)"

definition toLowerCase :: "string \<Rightarrow> string" where
  "toLowerCase s = map lower_char s"

text \<open>
  \<^verbatim>\<open>String.prototype.trim\<close> removes white space and line terminators from both ends;
  below 256 these are tab, line feed, vertical tab, form feed, carriage return, space and
  the no-break space.
\<close>

definition is_space :: "char \<Rightarrow> bool" where
  "is_space c = ((of_char c :: nat) \<in> {9, 10, 11, 12, 13, 32, 160})"

definition trim :: "string \<Rightarrow> string" where
  "trim s = rev (dropWhile is_space (rev (dropWhile is_space s)))"

text \<open>The decimal digits of a number, as a template literal prints an integer.\<close>

fun digits :: "nat \<Rightarrow> string" where
  "digits n = (if n < 10 then [char_of (48 + n)] else digits (n div 10) @ [char_of (48 + n mod 10)])"

declare digits.simps [simp del]

definition number_to_string :: "int \<Rightarrow> string" where
  "number_to_string i = (if i < 0 then CHR ''-'' # digits (nat (- i)) else digits (nat i))"

section \<open>PinHasher\<close>

text \<open>
  \<^verbatim>\<open>hashPin = (pin) => CryptoJS.SHA256(pin).toString(CryptoJS.enc.Base64)\<close>. The digest
  is the library's; it is a parameter \<open>sha\<close> of everything that hashes.
\<close>

definition hashPin :: "(jsval \<Rightarrow> string) \<Rightarrow> jsval \<Rightarrow> jsval" where
  "hashPin sha pin = JStr (sha pin)"

section \<open>The query client\<close>

text \<open>
  A request is what a chain of builder calls on \<^verbatim>\<open>supabase.from(table)\<close> has put
  together when it is awaited.
\<close>

datatype filter = Eq string jsval | ILike string string

datatype action = Select string | Insert "obj list" | Update obj | Delete

record request =
  r_table :: string
  r_action :: action
  r_filters :: "filter list"
  r_returning :: bool
  r_limit :: "nat option"
  r_single :: bool

definition from_table :: "string \<Rightarrow> action \<Rightarrow> request" where
  "from_table t a =
     \<lparr>r_table = t, r_action = a, r_filters = [],
      r_returning = (case a of Select cols \<Rightarrow> True | _ \<Rightarrow> False),
      r_limit = None, r_single = False\<rparr>"

definition eq :: "string \<Rightarrow> jsval \<Rightarrow> request \<Rightarrow> request" where
  "eq col v q = q\<lparr>r_filters := r_filters q @ [Eq col v]\<rparr>"

definition ilike :: "string \<Rightarrow> string \<Rightarrow> request \<Rightarrow> request" where
  "ilike col pat q = q\<lparr>r_filters := r_filters q @ [ILike col pat]\<rparr>"

definition select_back :: "request \<Rightarrow> request" where
  "select_back q = q\<lparr>r_returning := True\<rparr>"

definition limit :: "nat \<Rightarrow> request \<Rightarrow> request" where
  "limit n q = q\<lparr>r_limit := Some n\<rparr>"

definition single :: "request \<Rightarrow> request" where
  "single q = q\<lparr>r_single := True\<rparr>"

text \<open>A chain \<^verbatim>\<open>q.m1(..).m2(..)\<close> applies its calls from left to right.\<close>

definition chain :: "request \<Rightarrow> (request \<Rightarrow> request) list \<Rightarrow> request" where
  "chain q ms = fold (\<lambda>m. m) ms q"

text \<open>
  The store answers a request with a reported error or with the rows the request
  selected or touched, and moves to its next state: one round trip.
\<close>

type_synonym 's store = "request \<Rightarrow> 's \<Rightarrow> (obj + obj list) \<times> 's"

record response =
  data :: jsval
  error :: jsval

text \<open>
  Modelled from the spec: the query client of \<^verbatim>\<open>./lib/supabaseClient\<close>, which
  \<^verbatim>\<open>src/api.js\<close> imports and which is not among the sources. It returns "either a
  result set or a reported error"; \<^verbatim>\<open>single()\<close> "expects exactly one match" and reports
  an error on zero or several rows; a mutation without \<^verbatim>\<open>select()\<close> returns no rows.
\<close>

definition single_error :: obj where
  "single_error =
     [(''code'', JStr ''PGRST116''),
      (''message'', JStr ''JSON object requested, multiple (or no) rows returned'')]"

definition respond :: "request \<Rightarrow> obj + obj list \<Rightarrow> response" where
  "respond q out =
     (case out of
        Inl e \<Rightarrow> \<lparr>data = JNull, error = JObj e\<rparr>
      | Inr rows \<Rightarrow>
          if \<not> r_returning q then \<lparr>data = JNull, error = JNull\<rparr>
          else if r_single q then
            (case rows of
               [r] \<Rightarrow> \<lparr>data = JObj r, error = JNull\<rparr>
             | _ \<Rightarrow> \<lparr>data = JNull, error = JObj single_error\<rparr>)
          else \<lparr>data = JArr (map JObj rows), error = JNull\<rparr>)"

definition await :: "'s store \<Rightarrow> request \<Rightarrow> 's \<Rightarrow> response \<times> 's" where
  "await store q s = (case store q s of (out, s') \<Rightarrow> (respond q out, s'))"

section \<open>The operations of api.js\<close>

text \<open>What a call throws: \<^verbatim>\<open>new Error(message)\<close>, or the store's error object as it is.\<close>

datatype exn = JsError string | Thrown jsval

text \<open>
  The \<open>email\<close> of \<^verbatim>\<open>login\<close> is a string, lowercased first and trimmed second, as
  \<^verbatim>\<open>email.toLowerCase().trim()\<close> does. Each operation is split into the request it
  builds and the handling of the one response.
\<close>

definition login_request :: "(jsval \<Rightarrow> string) \<Rightarrow> string \<Rightarrow> jsval \<Rightarrow> request" where
  "login_request sha email password =
     (let pinHash = hashPin sha password
      in chain (from_table ''employees'' (Select ''*''))
           [eq ''email'' (JStr (trim (toLowerCase email))),
            eq ''pin_hash'' pinHash,
            single])"

definition login ::
  "'s store \<Rightarrow> (jsval \<Rightarrow> string) \<Rightarrow> string \<Rightarrow> jsval \<Rightarrow> 's \<Rightarrow> (exn + jsval) \<times> 's" where
  "login store sha email password s =
     (case await store (login_request sha email password) s of
        (r, s') \<Rightarrow>
          if truthy (error r) \<or> \<not> truthy (data r)
          then (Inl (JsError ''LOGIN_FAILED''), s')
          else (Inr (data r), s'))"

definition searchItems_request :: "string \<Rightarrow> request" where
  "searchItems_request query =
     chain (from_table ''items'' (Select ''*''))
       [ilike ''name'' (''%'' @ query @ ''%'')]"

definition searchItems :: "'s store \<Rightarrow> string \<Rightarrow> 's \<Rightarrow> (exn + jsval) \<times> 's" where
  "searchItems store query s =
     (case await store (searchItems_request query) s of
        (r, s') \<Rightarrow>
          if truthy (error r) then (Inl (Thrown (error r)), s')
          else (Inr (data r), s'))"

definition success :: jsval where
  "success = JObj [(''success'', JBool True)]"

definition deleteItem_request :: "jsval \<Rightarrow> request" where
  "deleteItem_request ident = chain (from_table ''items'' Delete) [eq ''id'' ident]"

definition deleteItem :: "'s store \<Rightarrow> jsval \<Rightarrow> 's \<Rightarrow> (exn + jsval) \<times> 's" where
  "deleteItem store ident s =
     (case await store (deleteItem_request ident) s of
        (r, s') \<Rightarrow>
          if truthy (error r) then (Inl (Thrown (error r)), s')
          else (Inr success, s'))"

text \<open>
  \<^verbatim>\<open>new Date()\<close> and \<^verbatim>\<open>Date.now()\<close> read the system clock. \<open>clk k\<close> is what the
  \<open>k\<close>-th reading of one call returns, in milliseconds since the epoch; readings are
  numbered in the order the call evaluates them.
\<close>

type_synonym clock = "nat \<Rightarrow> int"

definition addEmployee_row :: "(jsval \<Rightarrow> string) \<Rightarrow> clock \<Rightarrow> obj \<Rightarrow> obj" where
  "addEmployee_row sha clk employee =
     fold (\<lambda>m. m)
       [set_prop ''pin_hash'' (hashPin sha (get_prop employee ''pin'')),
        set_prop ''created_at'' (JDate (clk 0)),
        set_prop ''updated_at'' (JDate (clk 1))]
       employee"

definition addEmployee_request :: "(jsval \<Rightarrow> string) \<Rightarrow> clock \<Rightarrow> obj \<Rightarrow> request" where
  "addEmployee_request sha clk employee =
     chain (from_table ''employees'' (Insert [addEmployee_row sha clk employee]))
       [select_back, single]"

definition addEmployee ::
  "'s store \<Rightarrow> (jsval \<Rightarrow> string) \<Rightarrow> clock \<Rightarrow> obj \<Rightarrow> 's \<Rightarrow> (exn + jsval) \<times> 's" where
  "addEmployee store sha clk employee s =
     (case await store (addEmployee_request sha clk employee) s of
        (r, s') \<Rightarrow>
          if truthy (error r) then (Inl (Thrown (error r)), s')
          else (Inr (data r), s'))"

definition updateEmployee_payload :: "(jsval \<Rightarrow> string) \<Rightarrow> clock \<Rightarrow> obj \<Rightarrow> obj" where
  "updateEmployee_payload sha clk employee =
     (let payload = set_prop ''updated_at'' (JDate (clk 0)) employee
      in if truthy (get_prop employee ''pin'')
         then set_prop ''pin_hash'' (hashPin sha (get_prop employee ''pin'')) payload
         else payload)"

definition updateEmployee_request :: "(jsval \<Rightarrow> string) \<Rightarrow> clock \<Rightarrow> obj \<Rightarrow> request" where
  "updateEmployee_request sha clk employee =
     chain (from_table ''employees'' (Update (updateEmployee_payload sha clk employee)))
       [eq ''id'' (get_prop employee ''id''), select_back, single]"

definition updateEmployee ::
  "'s store \<Rightarrow> (jsval \<Rightarrow> string) \<Rightarrow> clock \<Rightarrow> obj \<Rightarrow> 's \<Rightarrow> (exn + jsval) \<times> 's" where
  "updateEmployee store sha clk employee s =
     (case await store (updateEmployee_request sha clk employee) s of
        (r, s') \<Rightarrow>
          if truthy (error r) then (Inl (Thrown (error r)), s')
          else (Inr (data r), s'))"

definition addTask_row :: "clock \<Rightarrow> obj \<Rightarrow> obj" where
  "addTask_row clk taskData =
     (let taskId = ''TASK'' @ number_to_string (clk 0)
      in fold (\<lambda>m. m)
           [set_prop ''task_id'' (JStr taskId),
            set_prop ''created_at'' (JDate (clk 1))]
           taskData)"

definition addTask_request :: "clock \<Rightarrow> obj \<Rightarrow> request" where
  "addTask_request clk taskData =
     chain (from_table ''tasks'' (Insert [addTask_row clk taskData]))
       [select_back, single]"

definition addTask :: "'s store \<Rightarrow> clock \<Rightarrow> obj \<Rightarrow> 's \<Rightarrow> (exn + jsval) \<times> 's" where
  "addTask store clk taskData s =
     (case await store (addTask_request clk taskData) s of
        (r, s') \<Rightarrow>
          if truthy (error r) then (Inl (Thrown (error r)), s')
          else (Inr (data r), s'))"

definition deleteTask_request :: "jsval \<Rightarrow> request" where
  "deleteTask_request taskId = chain (from_table ''tasks'' Delete) [eq ''task_id'' taskId]"

definition deleteTask :: "'s store \<Rightarrow> jsval \<Rightarrow> 's \<Rightarrow> (exn + jsval) \<times> 's" where
  "deleteTask store taskId s =
     (case await store (deleteTask_request taskId) s of
        (r, s') \<Rightarrow>
          if truthy (error r) then (Inl (Thrown (error r)), s')
          else (Inr success, s'))"

definition getLowStockThreshold_request :: request where
  "getLowStockThreshold_request =
     chain (from_table ''settings'' (Select ''*''))
       [eq ''setting_key'' (JStr ''LOW_STOCK_THRESHOLD''), limit 1]"

definition getLowStockThreshold :: "'s store \<Rightarrow> 's \<Rightarrow> (exn + jsval) \<times> 's" where
  "getLowStockThreshold store s =
     (case await store getLowStockThreshold_request s of
        (r, s') \<Rightarrow>
          if truthy (error r) \<or> \<not> truthy (data r) \<or> length_is_zero (data r)
          then (Inr JNull, s')
          else (Inr (index0 (data r)), s'))"

section \<open>A reference store\<close>

text \<open>
  Modelled from the spec: the store behind the client of \<^verbatim>\<open>./lib/supabaseClient\<close>,
  which is not among the sources: named tables of rows, "composable with equality/pattern
  filters (\<^verbatim>\<open>eq\<close>, \<^verbatim>\<open>ilike\<close>)" and a limit.

  \<^verbatim>\<open>ilike\<close> is the store's case-insensitive \<^verbatim>\<open>LIKE\<close>: in a pattern \<^verbatim>\<open>%\<close> stands for
  any run of characters, \<^verbatim>\<open>_\<close> for any one character, and a backslash makes the
  character after it stand for itself. A pattern that ends in a lone backslash matches
  nothing here (the store rejects it).
\<close>

definition backslash :: char where
  "backslash = CHR 0x5C"

fun like_match :: "string \<Rightarrow> string \<Rightarrow> bool" where
  "like_match [] s = (s = [])"
| "like_match (p # ps) s =
     (if p = CHR ''%'' then
        like_match ps s \<or> (case s of [] \<Rightarrow> False | c # cs \<Rightarrow> like_match (p # ps) cs)
      else if p = CHR ''_'' then
        (case s of [] \<Rightarrow> False | c # cs \<Rightarrow> like_match ps cs)
      else if p = backslash then
        (case ps of
           [] \<Rightarrow> False
         | e # es \<Rightarrow> (case s of [] \<Rightarrow> False | c # cs \<Rightarrow> c = e \<and> like_match es cs))
      else
        (case s of [] \<Rightarrow> False | c # cs \<Rightarrow> c = p \<and> like_match ps cs))"

definition ilike_match :: "string \<Rightarrow> string \<Rightarrow> bool" where
  "ilike_match pat s = like_match (map lower_char pat) (map lower_char s)"

text \<open>
  A filter on a row. Values are compared as they are (the store's casts between a
  filter's text and a column's type are left out); a stored null equals nothing; a
  pattern matches text only.
\<close>

fun holds :: "filter \<Rightarrow> obj \<Rightarrow> bool" where
  "holds (Eq col v) row = (v \<noteq> JNull \<and> map_of row col = Some v)"
| "holds (ILike col pat) row =
     (case map_of row col of Some (JStr s) \<Rightarrow> ilike_match pat s | _ \<Rightarrow> False)"

definition hit :: "request \<Rightarrow> obj \<Rightarrow> bool" where
  "hit q row = list_all (\<lambda>f. holds f row) (r_filters q)"

definition cut :: "request \<Rightarrow> obj list \<Rightarrow> obj list" where
  "cut q rows = (case r_limit q of None \<Rightarrow> rows | Some n \<Rightarrow> take n rows)"

type_synonym db = "(string \<times> obj list) list"

definition no_table_error :: obj where
  "no_table_error = [(''code'', JStr ''42P01''), (''message'', JStr ''relation does not exist'')]"

definition merge_row :: "obj \<Rightarrow> obj \<Rightarrow> obj" where
  "merge_row payload row = fold (\<lambda>(k, v). AList.update k v) payload row"

definition mem_store :: "db store" where
  "mem_store q d =
     (case map_of d (r_table q) of
        None \<Rightarrow> (Inl no_table_error, d)
      | Some rows \<Rightarrow>
          (case r_action q of
             Select cols \<Rightarrow> (Inr (cut q (filter (hit q) rows)), d)
           | Insert new \<Rightarrow> (Inr new, AList.update (r_table q) (rows @ new) d)
           | Update payload \<Rightarrow>
               (Inr (map (merge_row payload) (filter (hit q) rows)),
                AList.update (r_table q)
                  (map (\<lambda>r. if hit q r then merge_row payload r else r) rows) d)
           | Delete \<Rightarrow>
               (Inr (filter (hit q) rows),
                AList.update (r_table q) (filter (\<lambda>r. \<not> hit q r) rows) d)))"

text \<open>
  The spec's words for \<^verbatim>\<open>searchItems\<close>: the items "whose \<^verbatim>\<open>name\<close> contains
  \<^verbatim>\<open>query\<close>, case-insensitively, substring match".
\<close>

definition name_contains :: "string \<Rightarrow> obj \<Rightarrow> bool" where
  "name_contains query row =
     (case map_of row ''name'' of
        Some (JStr s) \<Rightarrow> sublist (map lower_char query) (map lower_char s)
      | _ \<Rightarrow> False)"

text \<open>
  A query with no character that a pattern reads as anything but itself. The asterisk is
  kept out as well: how the client's transport, which is not modelled, carries it to the
  store is left open.
\<close>

definition plain :: "string \<Rightarrow> bool" where
  "plain query =
     list_all (\<lambda>c. c \<noteq> CHR ''%'' \<and> c \<noteq> CHR ''_'' \<and> c \<noteq> backslash \<and> c \<noteq> CHR ''*'') query"

section \<open>Basic facts\<close>

lemma map_of_set_prop: "map_of (set_prop k v ob) = (map_of ob)(k \<mapsto> v)"
  by (simp add: set_prop_def update_conv')

lemma keys_set_prop:
  "map fst (set_prop k v ob) = (if k \<in> set (map fst ob) then map fst ob else map fst ob @ [k])"
  by (simp add: set_prop_def update_keys)

lemma await_eq: "await store q s = (respond q (fst (store q s)), snd (store q s))"
  by (simp add: await_def split: prod.split)

lemma addTask_row_fields:
  "map_of (addTask_row clk taskData) =
     (map_of taskData)(''task_id'' \<mapsto> JStr (''TASK'' @ number_to_string (clk 0)),
                       ''created_at'' \<mapsto> JDate (clk 1))"
  by (simp add: addTask_row_def map_of_set_prop)

lemma addTask_request_sends:
  "addTask_request clk taskData =
     \<lparr>r_table = ''tasks'', r_action = Insert [addTask_row clk taskData], r_filters = [],
      r_returning = True, r_limit = None, r_single = True\<rparr>"
  by (simp add: addTask_request_def chain_def from_table_def select_back_def single_def)

lemma addEmployee_row_map:
  "map_of (addEmployee_row sha clk employee) =
     (map_of employee)(''pin_hash'' \<mapsto> JStr (sha (get_prop employee ''pin'')),
                       ''created_at'' \<mapsto> JDate (clk 0),
                       ''updated_at'' \<mapsto> JDate (clk 1))"
  by (simp add: addEmployee_row_def map_of_set_prop hashPin_def)

lemma addEmployee_request_sends:
  "addEmployee_request sha clk employee =
     \<lparr>r_table = ''employees'', r_action = Insert [addEmployee_row sha clk employee],
      r_filters = [], r_returning = True, r_limit = None, r_single = True\<rparr>"
  by (simp add: addEmployee_request_def chain_def from_table_def select_back_def single_def)

lemma login_request_sends:
  "login_request sha email password =
     \<lparr>r_table = ''employees'', r_action = Select ''*'',
      r_filters = [Eq ''email'' (JStr (trim (toLowerCase email))),
                   Eq ''pin_hash'' (JStr (sha password))],
      r_returning = True, r_limit = None, r_single = True\<rparr>"
  by (simp add: login_request_def chain_def from_table_def eq_def single_def hashPin_def)

lemma is_space_lower_char: "is_space (lower_char c) = is_space c"
  by (auto simp: is_space_def lower_char_def Let_def)

lemma dropWhile_space_lower:
  "dropWhile is_space (map lower_char s) = map lower_char (dropWhile is_space s)"
  by (induction s) (simp_all add: is_space_lower_char)

lemma trim_toLowerCase: "trim (toLowerCase s) = toLowerCase (trim s)"
  by (simp add: trim_def toLowerCase_def dropWhile_space_lower rev_map)

lemma login_outcome:
  "login store sha email password s =
     (case fst (store (login_request sha email password) s) of
        Inl e \<Rightarrow> Inl (JsError ''LOGIN_FAILED'')
      | Inr rows \<Rightarrow> (case rows of [r] \<Rightarrow> Inr (JObj r) | _ \<Rightarrow> Inl (JsError ''LOGIN_FAILED'')),
      snd (store (login_request sha email password) s))"
  by (simp add: login_def await_eq respond_def login_request_sends
      split: sum.split list.split)

lemma getLowStockThreshold_request_sends:
  "getLowStockThreshold_request =
     \<lparr>r_table = ''settings'', r_action = Select ''*'',
      r_filters = [Eq ''setting_key'' (JStr ''LOW_STOCK_THRESHOLD'')],
      r_returning = True, r_limit = Some 1, r_single = False\<rparr>"
  by (simp add: getLowStockThreshold_request_def chain_def from_table_def eq_def limit_def)

lemma deleteTask_request_sends:
  "deleteTask_request taskId =
     \<lparr>r_table = ''tasks'', r_action = Delete, r_filters = [Eq ''task_id'' taskId],
      r_returning = False, r_limit = None, r_single = False\<rparr>"
  by (simp add: deleteTask_request_def chain_def from_table_def eq_def)

lemma deleteItem_request_sends:
  "deleteItem_request ident =
     \<lparr>r_table = ''items'', r_action = Delete, r_filters = [Eq ''id'' ident],
      r_returning = False, r_limit = None, r_single = False\<rparr>"
  by (simp add: deleteItem_request_def chain_def from_table_def eq_def)

lemma updateEmployee_payload_map:
  "map_of (updateEmployee_payload sha clk employee) =
     (if truthy (get_prop employee ''pin'')
      then (map_of employee)(''updated_at'' \<mapsto> JDate (clk 0),
                             ''pin_hash'' \<mapsto> hashPin sha (get_prop employee ''pin''))
      else (map_of employee)(''updated_at'' \<mapsto> JDate (clk 0)))"
  by (simp add: updateEmployee_payload_def Let_def map_of_set_prop)

lemma updateEmployee_request_sends:
  "updateEmployee_request sha clk employee =
     \<lparr>r_table = ''employees'', r_action = Update (updateEmployee_payload sha clk employee),
      r_filters = [Eq ''id'' (get_prop employee ''id'')],
      r_returning = True, r_limit = None, r_single = True\<rparr>"
  by (simp add: updateEmployee_request_def chain_def from_table_def eq_def select_back_def
      single_def)

lemma merge_row_other:
  "k \<notin> fst ` set payload \<Longrightarrow> map_of (merge_row payload row) k = map_of row k"
  unfolding merge_row_def
  by (induction payload arbitrary: row) (auto simp: update_conv')

subsection \<open>Patterns\<close>

lemma like_match_percent_only: "like_match [CHR ''%''] s"
  by (induction s) simp_all

lemma like_match_percent:
  "like_match (CHR ''%'' # ps) s = (\<exists>u v. s = u @ v \<and> like_match ps v)"
proof (induction s)
  case Nil
  then show ?case by simp
next
  case (Cons c cs)
  have "(\<exists>u v. c # cs = u @ v \<and> like_match ps v)
          = (like_match ps (c # cs) \<or> (\<exists>u v. cs = u @ v \<and> like_match ps v))"
    by (auto simp: Cons_eq_append_conv)
  with Cons show ?case by simp
qed

lemma like_match_literal:
  "list_all (\<lambda>c. c \<noteq> CHR ''%'' \<and> c \<noteq> CHR ''_'' \<and> c \<noteq> backslash) q \<Longrightarrow>
     like_match (q @ ps) s = (\<exists>t. s = q @ t \<and> like_match ps t)"
proof (induction q arbitrary: s)
  case Nil
  then show ?case by simp
next
  case (Cons a q)
  then show ?case by (cases s) auto
qed

lemma like_match_contains:
  assumes "list_all (\<lambda>c. c \<noteq> CHR ''%'' \<and> c \<noteq> CHR ''_'' \<and> c \<noteq> backslash) q"
  shows "like_match (CHR ''%'' # q @ [CHR ''%'']) s = sublist q s"
proof -
  have "like_match (CHR ''%'' # q @ [CHR ''%'']) s
          = (\<exists>u v. s = u @ v \<and> like_match (q @ [CHR ''%'']) v)"
    by (rule like_match_percent)
  also have "\<dots> = (\<exists>u v. s = u @ v \<and> (\<exists>t. v = q @ t))"
    by (simp add: like_match_literal [OF assms] like_match_percent_only del: like_match.simps)
  also have "\<dots> = sublist q s"
    by (auto simp: sublist_def)
  finally show ?thesis .
qed

lemma char_eq_code: "(c = d) = ((of_char c :: nat) = of_char d)"
  by simp

lemma lower_char_meta:
  "(lower_char c \<noteq> CHR ''%'' \<and> lower_char c \<noteq> CHR ''_'' \<and> lower_char c \<noteq> backslash)
     = (c \<noteq> CHR ''%'' \<and> c \<noteq> CHR ''_'' \<and> c \<noteq> backslash)"
  unfolding char_eq_code [of _ "CHR ''%''"] char_eq_code [of _ "CHR ''_''"]
    char_eq_code [of _ backslash]
  by (auto simp: lower_char_def Let_def backslash_def)

lemma lower_char_percent: "lower_char (CHR ''%'') = CHR ''%''"
  by (simp add: lower_char_def)

lemma plain_pattern:
  assumes "plain q"
  shows "map lower_char (''%'' @ q @ ''%'') = CHR ''%'' # map lower_char q @ [CHR ''%'']"
    and "list_all (\<lambda>c. c \<noteq> CHR ''%'' \<and> c \<noteq> CHR ''_'' \<and> c \<noteq> backslash) (map lower_char q)"
proof -
  show "map lower_char (''%'' @ q @ ''%'') = CHR ''%'' # map lower_char q @ [CHR ''%'']"
    by (simp add: lower_char_percent)
  show "list_all (\<lambda>c. c \<noteq> CHR ''%'' \<and> c \<noteq> CHR ''_'' \<and> c \<noteq> backslash) (map lower_char q)"
    using assms by (induction q) (simp_all add: plain_def lower_char_meta)
qed

lemma ilike_match_plain:
  assumes "plain q"
  shows "ilike_match (''%'' @ q @ ''%'') s = sublist (map lower_char q) (map lower_char s)"
  unfolding ilike_match_def plain_pattern(1) [OF assms]
  by (rule like_match_contains [OF plain_pattern(2) [OF assms]])

lemma searchItems_request_sends:
  "searchItems_request query =
     \<lparr>r_table = ''items'', r_action = Select ''*'',
      r_filters = [ILike ''name'' (''%'' @ query @ ''%'')],
      r_returning = True, r_limit = None, r_single = False\<rparr>"
  by (simp add: searchItems_request_def chain_def from_table_def ilike_def)

lemma searchItems_request_fields:
  "r_table (searchItems_request query) = ''items''"
  "r_action (searchItems_request query) = Select ''*''"
  "r_filters (searchItems_request query) = [ILike ''name'' (''%'' @ query @ ''%'')]"
  "r_returning (searchItems_request query)"
  "r_limit (searchItems_request query) = None"
  "\<not> r_single (searchItems_request query)"
  by (simp_all add: searchItems_request_sends)

lemma hit_searchItems_plain:
  assumes "plain query"
  shows "hit (searchItems_request query) row = name_contains query row"
proof -
  have "holds (ILike ''name'' (''%'' @ query @ ''%'')) row = name_contains query row"
    unfolding holds.simps name_contains_def ilike_match_plain [OF assms] ..
  then show ?thesis
    unfolding hit_def searchItems_request_fields by simp
qed

lemma addEmployee_round_trip:
  "snd (addEmployee store sha clk employee s)
     = snd (store (addEmployee_request sha clk employee) s)"
  by (simp add: addEmployee_def await_eq)

lemma updateEmployee_round_trip:
  "snd (updateEmployee store sha clk employee s)
     = snd (store (updateEmployee_request sha clk employee) s)"
  by (simp add: updateEmployee_def await_eq)

lemma addTask_round_trip:
  "snd (addTask store clk taskData s) = snd (store (addTask_request clk taskData) s)"
  by (simp add: addTask_def await_eq)

lemma addTask_outcome:
  "addTask store clk taskData s =
     (case fst (store (addTask_request clk taskData) s) of
        Inl e \<Rightarrow> Inl (Thrown (JObj e))
      | Inr rows \<Rightarrow>
          (case rows of [r] \<Rightarrow> Inr (JObj r) | _ \<Rightarrow> Inl (Thrown (JObj single_error))),
      snd (store (addTask_request clk taskData) s))"
  by (simp add: addTask_def await_eq respond_def addTask_request_sends
      split: sum.split list.split)

lemma mem_store_addTask:
  "map_of d ''tasks'' = Some rows \<Longrightarrow>
     mem_store (addTask_request clk taskData) d
       = (Inr [addTask_row clk taskData],
          AList.update ''tasks'' (rows @ [addTask_row clk taskData]) d)"
  by (simp add: mem_store_def addTask_request_sends)

lemma hit_login:
  "hit (login_request sha email password) row
     = (map_of row ''email'' = Some (JStr (trim (toLowerCase email)))
        \<and> map_of row ''pin_hash'' = Some (hashPin sha password))"
  by (simp add: login_request_sends hit_def hashPin_def)

lemma mem_store_login:
  "map_of d ''employees'' = Some rows \<Longrightarrow>
     mem_store (login_request sha email password) d
       = (Inr (filter (hit (login_request sha email password)) rows), d)"
  by (simp add: mem_store_def cut_def login_request_sends)

lemma mem_store_searchItems:
  "map_of d ''items'' = Some items \<Longrightarrow>
     mem_store (searchItems_request query) d
       = (Inr (filter (hit (searchItems_request query)) items), d)"
  by (simp add: mem_store_def cut_def searchItems_request_fields(1,2,5))

lemma hit_searchItems:
  "hit (searchItems_request query) = holds (ILike ''name'' (''%'' @ query @ ''%''))"
  by (rule ext) (simp add: hit_def searchItems_request_fields(3))

section \<open>Employees: what addEmployee sends\<close>

text \<open>
  C1, as the spec states it: the row that \<^verbatim>\<open>addEmployee\<close> sends to the insert holds
  \<^verbatim>\<open>pin_hash\<close> only and never the raw \<^verbatim>\<open>pin\<close>. The code spreads the whole input
  into the row, so an input with a \<^verbatim>\<open>pin\<close> field sends that field along: for the input
  \<^verbatim>\<open>{name: "Ann", pin: "1234"}\<close> the row has \<^verbatim>\<open>pin: "1234"\<close> beside the hash.
\<close>

theorem addEmployee_sends_raw_pin:
  "addEmployee_row (\<lambda>p. ''digest'') (\<lambda>k. 0) [(''name'', JStr ''Ann''), (''pin'', JStr ''1234'')]
     = [(''name'', JStr ''Ann''), (''pin'', JStr ''1234''), (''pin_hash'', JStr ''digest''),
        (''created_at'', JDate 0), (''updated_at'', JDate 0)]
   \<and> map_of (addEmployee_row (\<lambda>p. ''digest'') (\<lambda>k. 0)
               [(''name'', JStr ''Ann''), (''pin'', JStr ''1234'')]) ''pin''
       = Some (JStr ''1234'')"
  by (simp add: addEmployee_row_def set_prop_def hashPin_def get_prop_def)

text \<open>
  C1, amended: for every input, \<^verbatim>\<open>addEmployee\<close> inserts into \<^verbatim>\<open>employees\<close> one row
  whose \<^verbatim>\<open>pin_hash\<close> is the hash of the input's \<^verbatim>\<open>pin\<close>, whose two timestamps are
  the clock's, and whose every other field is the input's, unchanged: the raw \<^verbatim>\<open>pin\<close>
  field is forwarded as it is when the input has one, and is absent from the row exactly
  when the input has none. The insert of that row is the call's one round trip.
\<close>

theorem addEmployee_row_contents:
  "r_table (addEmployee_request sha clk employee) = ''employees''
   \<and> r_action (addEmployee_request sha clk employee) = Insert [addEmployee_row sha clk employee]
   \<and> map_of (addEmployee_row sha clk employee) ''pin_hash''
       = Some (hashPin sha (get_prop employee ''pin''))
   \<and> map_of (addEmployee_row sha clk employee) ''created_at'' = Some (JDate (clk 0))
   \<and> map_of (addEmployee_row sha clk employee) ''updated_at'' = Some (JDate (clk 1))
   \<and> map_of (addEmployee_row sha clk employee) ''pin'' = map_of employee ''pin''
   \<and> (k \<notin> {''pin_hash'', ''created_at'', ''updated_at''} \<longrightarrow>
        map_of (addEmployee_row sha clk employee) k = map_of employee k)
   \<and> snd (addEmployee store sha clk employee s)
       = snd (store (addEmployee_request sha clk employee) s)"
  by (simp add: addEmployee_request_sends addEmployee_row_map hashPin_def
      addEmployee_round_trip)

theorem addEmployee_row_contents_witness:
  "map_of (addEmployee_row (\<lambda>p. ''digest'') (\<lambda>k. int k) [(''name'', JStr ''Ann'')]) ''pin'' = None
   \<and> map_of (addEmployee_row (\<lambda>p. ''digest'') (\<lambda>k. int k) [(''name'', JStr ''Ann'')]) ''name''
       = Some (JStr ''Ann'')
   \<and> map_of (addEmployee_row (\<lambda>p. ''digest'') (\<lambda>k. int k) [(''name'', JStr ''Ann'')]) ''pin_hash''
       = Some (JStr ''digest'')"
  using addEmployee_row_contents
    [of "\<lambda>p. ''digest''" "\<lambda>k. int k" "[(''name'', JStr ''Ann'')]" "''name''"
      mem_store "[(''employees'', [])]"]
  by (simp add: hashPin_def)

section \<open>Tasks: what addTask sends\<close>

text \<open>
  C7: for every input, \<^verbatim>\<open>addTask\<close> makes one round trip, the insert into
  \<^verbatim>\<open>tasks\<close> of one row, and returns the single row the store answers with (or throws
  the store's error). That row has as \<^verbatim>\<open>task_id\<close> the string \<^verbatim>\<open>"TASK"\<close> followed by
  the clock's milliseconds (the call's first reading), has \<^verbatim>\<open>created_at\<close> stamped from
  the clock, and gets no \<^verbatim>\<open>updated_at\<close> from \<^verbatim>\<open>addTask\<close>: that field is as the input
  has it, absent when the input has none. On the reference store the row is appended to
  the table and returned. Two calls that read the same millisecond produce the same
  \<^verbatim>\<open>task_id\<close>, whatever their inputs.
\<close>

theorem addTask_task_id:
  "map_of (addTask_row clk taskData) ''task_id''
     = Some (JStr (''TASK'' @ number_to_string (clk 0)))
   \<and> map_of (addTask_row clk taskData) ''created_at'' = Some (JDate (clk 1))
   \<and> map_of (addTask_row clk taskData) ''updated_at'' = map_of taskData ''updated_at''
   \<and> (clk 0 = clk' 0 \<longrightarrow>
        map_of (addTask_row clk taskData) ''task_id''
          = map_of (addTask_row clk' taskData') ''task_id'')
   \<and> r_table (addTask_request clk taskData) = ''tasks''
   \<and> r_action (addTask_request clk taskData) = Insert [addTask_row clk taskData]
   \<and> addTask store clk taskData s =
       (case fst (store (addTask_request clk taskData) s) of
          Inl e \<Rightarrow> Inl (Thrown (JObj e))
        | Inr rows \<Rightarrow>
            (case rows of [r] \<Rightarrow> Inr (JObj r) | _ \<Rightarrow> Inl (Thrown (JObj single_error))),
        snd (store (addTask_request clk taskData) s))
   \<and> (map_of d ''tasks'' = Some stored \<longrightarrow>
        addTask mem_store clk taskData d
          = (Inr (JObj (addTask_row clk taskData)),
             AList.update ''tasks'' (stored @ [addTask_row clk taskData]) d))"
proof -
  have "addTask mem_store clk taskData d
          = (Inr (JObj (addTask_row clk taskData)),
             AList.update ''tasks'' (stored @ [addTask_row clk taskData]) d)"
    if "map_of d ''tasks'' = Some stored"
    by (simp add: addTask_outcome [of mem_store] mem_store_addTask [OF that])
  moreover note addTask_outcome [of store clk taskData s]
  ultimately show ?thesis
    by (simp add: addTask_row_fields addTask_request_sends)
qed

theorem addTask_task_id_witness:
  "map_of (addTask_row (\<lambda>k. 1700000000123) [(''title'', JStr ''a'')]) ''task_id''
     = Some (JStr ''TASK1700000000123'')
   \<and> map_of (addTask_row (\<lambda>k. 1700000000123) [(''title'', JStr ''a'')]) ''updated_at'' = None
   \<and> map_of (addTask_row (\<lambda>k. 1700000000123) [(''title'', JStr ''a'')]) ''task_id''
     = map_of (addTask_row (\<lambda>k. 1700000000123 + int k) [(''title'', JStr ''b'')]) ''task_id''
   \<and> addTask mem_store (\<lambda>k. 1700000000123) [(''title'', JStr ''a'')] [(''tasks'', [])]
     = (Inr (JObj (addTask_row (\<lambda>k. 1700000000123) [(''title'', JStr ''a'')])),
        [(''tasks'', [addTask_row (\<lambda>k. 1700000000123) [(''title'', JStr ''a'')]])])"
proof -
  have n: "number_to_string 1700000000123 = ''1700000000123''"
    apply (simp add: number_to_string_def digits.simps)
    apply code_simp
    done
  show ?thesis
    using addTask_task_id [of "\<lambda>k. 1700000000123" "[(''title'', JStr ''a'')]"
        "\<lambda>k. 1700000000123 + int k" "[(''title'', JStr ''b'')]"
        mem_store "[(''tasks'', [])]" "[(''tasks'', [])]" "[]"]
    by (auto simp: n)
qed

text \<open>
  C8: for every input record, \<^verbatim>\<open>addTask\<close> inserts into \<^verbatim>\<open>tasks\<close> one row whose
  \<^verbatim>\<open>task_id\<close> and \<^verbatim>\<open>created_at\<close> are the generated ones, also when the input
  carries fields of these names: they are set after the spread, so the input's values are
  overwritten (in place), and every other field is the input's.
\<close>

theorem addTask_overrides_input:
  "r_table (addTask_request clk taskData) = ''tasks''
   \<and> r_action (addTask_request clk taskData) = Insert [addTask_row clk taskData]
   \<and> map_of (addTask_row clk taskData) ''task_id''
       = Some (JStr (''TASK'' @ number_to_string (clk 0)))
   \<and> map_of (addTask_row clk taskData) ''created_at'' = Some (JDate (clk 1))
   \<and> (k \<noteq> ''task_id'' \<and> k \<noteq> ''created_at'' \<longrightarrow>
        map_of (addTask_row clk taskData) k = map_of taskData k)
   \<and> map fst (addTask_row clk taskData)
       = map fst taskData
         @ filter (\<lambda>k. k \<notin> set (map fst taskData)) [''task_id'', ''created_at'']
   \<and> snd (addTask store clk taskData s) = snd (store (addTask_request clk taskData) s)"
  apply (simp add: addTask_request_sends addTask_row_fields addTask_round_trip)
  apply (simp add: addTask_row_def keys_set_prop)
  done

theorem addTask_overrides_input_witness:
  "map_of (addTask_row (\<lambda>k. 5 + int k)
      [(''task_id'', JStr ''MINE''), (''title'', JStr ''t''), (''created_at'', JNum 0)]) ''task_id''
     = Some (JStr ''TASK5'')
   \<and> map_of (addTask_row (\<lambda>k. 5 + int k)
      [(''task_id'', JStr ''MINE''), (''title'', JStr ''t''), (''created_at'', JNum 0)]) ''created_at''
     = Some (JDate 6)
   \<and> map_of (addTask_row (\<lambda>k. 5 + int k)
      [(''task_id'', JStr ''MINE''), (''title'', JStr ''t''), (''created_at'', JNum 0)]) ''title''
     = Some (JStr ''t'')
   \<and> map fst (addTask_row (\<lambda>k. 5 + int k)
      [(''task_id'', JStr ''MINE''), (''title'', JStr ''t''), (''created_at'', JNum 0)])
     = [''task_id'', ''title'', ''created_at'']"
proof -
  have n: "number_to_string 5 = ''5''"
    by code_simp
  show ?thesis
    using addTask_overrides_input [of "\<lambda>k. 5 + int k"
        "[(''task_id'', JStr ''MINE''), (''title'', JStr ''t''), (''created_at'', JNum 0)]"
        "''title''" mem_store "[(''tasks'', [])]"]
    by (auto simp: n)
qed

section \<open>Login\<close>

text \<open>
  C2: for every email and password, \<^verbatim>\<open>login\<close> asks the \<^verbatim>\<open>employees\<close> table for a
  single row, and a row satisfies the request's filters exactly when its \<^verbatim>\<open>email\<close> is
  the lowercased, trimmed input email and its \<^verbatim>\<open>pin_hash\<close> is the hash of the password.
  Lowercasing and trimming commute, so the order the code applies them in does not matter.
  Two emails with the same lowercased, trimmed form behave identically on every store and
  state; \<^verbatim>\<open>"User@Example.com"\<close> and \<^verbatim>\<open>"user@example.com "\<close> are such a pair.
  That request is the call's one round trip, and the result of \<^verbatim>\<open>login\<close> is read off
  the store's answer to it: the one row if exactly one is matched. On the reference store
  \<^verbatim>\<open>login\<close> returns the employee whose \<^verbatim>\<open>email\<close> and \<^verbatim>\<open>pin_hash\<close> are those two
  values when the table holds exactly one such row, fails otherwise, and changes nothing.
\<close>

theorem login_query:
  "r_table (login_request sha email password) = ''employees''
   \<and> r_action (login_request sha email password) = Select ''*''
   \<and> r_single (login_request sha email password)
   \<and> hit (login_request sha email password) row
       = (map_of row ''email'' = Some (JStr (trim (toLowerCase email)))
          \<and> map_of row ''pin_hash'' = Some (hashPin sha password))
   \<and> trim (toLowerCase email) = toLowerCase (trim email)
   \<and> (trim (toLowerCase email) = trim (toLowerCase email') \<longrightarrow>
        login store sha email password s = login store sha email' password s)
   \<and> login store sha ''User@Example.com'' password s
       = login store sha ''user@example.com '' password s
   \<and> login store sha email password s =
       (case fst (store (login_request sha email password) s) of
          Inl e \<Rightarrow> Inl (JsError ''LOGIN_FAILED'')
        | Inr rows \<Rightarrow>
            (case rows of [r] \<Rightarrow> Inr (JObj r) | _ \<Rightarrow> Inl (JsError ''LOGIN_FAILED'')),
        snd (store (login_request sha email password) s))
   \<and> (map_of d ''employees'' = Some employees \<longrightarrow>
        login mem_store sha email password d =
          (case filter (\<lambda>row. map_of row ''email'' = Some (JStr (trim (toLowerCase email)))
                            \<and> map_of row ''pin_hash'' = Some (hashPin sha password))
                  employees of
             [r] \<Rightarrow> Inr (JObj r)
           | _ \<Rightarrow> Inl (JsError ''LOGIN_FAILED''),
           d))"
proof -
  have e: "trim (toLowerCase ''User@Example.com'') = trim (toLowerCase ''user@example.com '')"
    by code_simp
  have same: "login store sha a password s = login store sha b password s"
    if "trim (toLowerCase a) = trim (toLowerCase b)" for a b
    using that by (simp add: login_outcome login_request_sends)
  have h: "hit (login_request sha email password)
             = (\<lambda>row. map_of row ''email'' = Some (JStr (trim (toLowerCase email)))
                      \<and> map_of row ''pin_hash'' = Some (hashPin sha password))"
    by (rule ext) (rule hit_login)
  have mem: "login mem_store sha email password d =
          (case filter (\<lambda>row. map_of row ''email'' = Some (JStr (trim (toLowerCase email)))
                            \<and> map_of row ''pin_hash'' = Some (hashPin sha password))
                  employees of
             [r] \<Rightarrow> Inr (JObj r)
           | _ \<Rightarrow> Inl (JsError ''LOGIN_FAILED''),
           d)"
    if "map_of d ''employees'' = Some employees"
    by (simp add: login_outcome [of mem_store] mem_store_login [OF that] h)
  have req: "r_table (login_request sha email password) = ''employees''"
    "r_action (login_request sha email password) = Select ''*''"
    "r_single (login_request sha email password)"
    by (simp_all add: login_request_sends)
  show ?thesis
    using same [OF e] same [of email email'] mem login_outcome [of store sha email password s]
    by (simp add: req hit_login trim_toLowerCase)
qed

theorem login_query_witness:
  "hit (login_request (\<lambda>p. ''digest'') '' Ann@Example.COM'' (JStr ''1234''))
       [(''email'', JStr ''ann@example.com''), (''pin_hash'', JStr ''digest'')]
   \<and> login mem_store (\<lambda>p. ''digest'') '' Ann@Example.COM'' (JStr ''1234'')
        [(''employees'', [[(''email'', JStr ''ann@example.com''), (''pin_hash'', JStr ''digest'')]])]
     = login mem_store (\<lambda>p. ''digest'') ''ann@example.com'' (JStr ''1234'')
        [(''employees'', [[(''email'', JStr ''ann@example.com''), (''pin_hash'', JStr ''digest'')]])]
   \<and> login mem_store (\<lambda>p. ''digest'') '' Ann@Example.COM'' (JStr ''1234'')
        [(''employees'', [[(''email'', JStr ''ann@example.com''), (''pin_hash'', JStr ''digest'')]])]
     = (Inr (JObj [(''email'', JStr ''ann@example.com''), (''pin_hash'', JStr ''digest'')]),
        [(''employees'', [[(''email'', JStr ''ann@example.com''), (''pin_hash'', JStr ''digest'')]])])"
proof -
  have a: "trim (toLowerCase '' Ann@Example.COM'') = ''ann@example.com''"
    by code_simp
  have b: "trim (toLowerCase ''ann@example.com'') = ''ann@example.com''"
    by code_simp
  note q = login_query [of "\<lambda>p. ''digest''" "'' Ann@Example.COM''" "JStr ''1234''"
        "[(''email'', JStr ''ann@example.com''), (''pin_hash'', JStr ''digest'')]"
        "''ann@example.com''" mem_store
        "[(''employees'', [[(''email'', JStr ''ann@example.com''), (''pin_hash'', JStr ''digest'')]])]"
        "[(''employees'', [[(''email'', JStr ''ann@example.com''), (''pin_hash'', JStr ''digest'')]])]"
        "[[(''email'', JStr ''ann@example.com''), (''pin_hash'', JStr ''digest'')]]"]
  note filters = q [THEN conjunct2, THEN conjunct2, THEN conjunct2, THEN conjunct1]
  note same = q [THEN conjunct2, THEN conjunct2, THEN conjunct2, THEN conjunct2,
      THEN conjunct2, THEN conjunct1]
  note found = q [THEN conjunct2, THEN conjunct2, THEN conjunct2, THEN conjunct2,
      THEN conjunct2, THEN conjunct2, THEN conjunct2, THEN conjunct2]
  show ?thesis
    using filters same found by (simp add: a b hashPin_def)
qed

text \<open>
  C3: \<^verbatim>\<open>login\<close> throws exactly when the store reports an error or the request matches
  zero rows or more than one row; whenever it throws, what it throws is the one value
  \<^verbatim>\<open>Error('LOGIN_FAILED')\<close>, whatever the cause. On exactly one matching row it returns
  that row. In every case it makes the one round trip.
\<close>

theorem login_failure:
  "(isl (fst (login store sha email password s))
      \<longleftrightarrow> (case fst (store (login_request sha email password) s) of
             Inl e \<Rightarrow> True | Inr rows \<Rightarrow> length rows \<noteq> 1))
   \<and> (isl (fst (login store sha email password s))
      \<longrightarrow> fst (login store sha email password s) = Inl (JsError ''LOGIN_FAILED''))
   \<and> (fst (store (login_request sha email password) s) = Inr [r]
      \<longrightarrow> fst (login store sha email password s) = Inr (JObj r))
   \<and> snd (login store sha email password s) = snd (store (login_request sha email password) s)"
  by (auto simp: login_outcome split: sum.split list.split)

theorem login_failure_witness:
  "fst (login mem_store (\<lambda>p. ''digest'') ''ann@example.com'' (JStr ''1234'')
          [(''employees'', [[(''email'', JStr ''ann@example.com''), (''pin_hash'', JStr ''other'')]])])
     = Inl (JsError ''LOGIN_FAILED'')
   \<and> fst (login (\<lambda>q s. (Inl [(''message'', JStr ''fetch failed'')], s)) (\<lambda>p. ''digest'')
          ''ann@example.com'' (JStr ''1234'') ())
     = Inl (JsError ''LOGIN_FAILED'')"
proof -
  have a: "trim (toLowerCase ''ann@example.com'') = ''ann@example.com''"
    by code_simp
  have m: "fst (mem_store (login_request (\<lambda>p. ''digest'') ''ann@example.com'' (JStr ''1234''))
          [(''employees'', [[(''email'', JStr ''ann@example.com''), (''pin_hash'', JStr ''other'')]])])
        = Inr []"
    by (simp add: login_request_sends a mem_store_def hit_def cut_def)
  show ?thesis
    using login_failure [of mem_store "\<lambda>p. ''digest''" "''ann@example.com''" "JStr ''1234''"
        "[(''employees'', [[(''email'', JStr ''ann@example.com''), (''pin_hash'', JStr ''other'')]])]"
        "[]"]
      login_failure [of "\<lambda>q s. (Inl [(''message'', JStr ''fetch failed'')], s)"
        "\<lambda>p. ''digest''" "''ann@example.com''" "JStr ''1234''" "()" "[]"]
    by (simp add: m)
qed

section \<open>Employees: what updateEmployee sends\<close>

text \<open>
  C4, as the spec states it: when the input has no \<^verbatim>\<open>pin\<close>, the update leaves the stored
  \<^verbatim>\<open>pin_hash\<close> untouched. The payload is the spread of the whole input, so an input
  without \<^verbatim>\<open>pin\<close> but with a \<^verbatim>\<open>pin_hash\<close> field of its own has that field written:
  for \<^verbatim>\<open>{id: 1, pin_hash: "stale"}\<close> the payload carries \<^verbatim>\<open>pin_hash: "stale"\<close>, and
  the reference store's row, which held \<^verbatim>\<open>"current"\<close>, holds \<^verbatim>\<open>"stale"\<close> afterwards.
\<close>

theorem updateEmployee_writes_input_hash:
  "map_of [(''id'', JNum 1), (''pin_hash'', JStr ''stale'')] ''pin'' = None
   \<and> updateEmployee_payload (\<lambda>p. ''digest'') (\<lambda>k. 7) [(''id'', JNum 1), (''pin_hash'', JStr ''stale'')]
       = [(''id'', JNum 1), (''pin_hash'', JStr ''stale''), (''updated_at'', JDate 7)]
   \<and> snd (updateEmployee mem_store (\<lambda>p. ''digest'') (\<lambda>k. 7)
             [(''id'', JNum 1), (''pin_hash'', JStr ''stale'')]
             [(''employees'', [[(''id'', JNum 1), (''pin_hash'', JStr ''current'')]])])
       = [(''employees'', [[(''id'', JNum 1), (''pin_hash'', JStr ''stale''), (''updated_at'', JDate 7)]])]"
  by (simp add: updateEmployee_payload_def set_prop_def get_prop_def updateEmployee_def await_eq
      updateEmployee_request_sends mem_store_def hit_def merge_row_def)

text \<open>
  C4, amended: for every employee-update input, \<^verbatim>\<open>updateEmployee\<close> puts
  \<^verbatim>\<open>pin_hash = hash(pin)\<close> into the update payload when the input's \<^verbatim>\<open>pin\<close> is
  truthy. Otherwise it adds no \<^verbatim>\<open>pin_hash\<close> of its own: the payload's \<^verbatim>\<open>pin_hash\<close>
  is the input's own \<^verbatim>\<open>pin_hash\<close> field. When the input has neither a \<^verbatim>\<open>pin\<close> nor a
  \<^verbatim>\<open>pin_hash\<close> field, the payload has no \<^verbatim>\<open>pin_hash\<close>, and a row updated with the
  payload keeps the \<^verbatim>\<open>pin_hash\<close> it had.
\<close>

theorem updateEmployee_pin_hash:
  "r_table (updateEmployee_request sha clk employee) = ''employees''
   \<and> r_action (updateEmployee_request sha clk employee)
       = Update (updateEmployee_payload sha clk employee)
   \<and> (truthy (get_prop employee ''pin'') \<longrightarrow>
        map_of (updateEmployee_payload sha clk employee) ''pin_hash''
          = Some (hashPin sha (get_prop employee ''pin'')))
   \<and> (\<not> truthy (get_prop employee ''pin'') \<longrightarrow>
        map_of (updateEmployee_payload sha clk employee) ''pin_hash''
          = map_of employee ''pin_hash'')
   \<and> (map_of employee ''pin'' = None \<and> map_of employee ''pin_hash'' = None \<longrightarrow>
        map_of (updateEmployee_payload sha clk employee) ''pin_hash'' = None
        \<and> map_of (merge_row (updateEmployee_payload sha clk employee) row) ''pin_hash''
            = map_of row ''pin_hash'')
   \<and> snd (updateEmployee store sha clk employee s)
       = snd (store (updateEmployee_request sha clk employee) s)"
proof -
  have "map_of (merge_row (updateEmployee_payload sha clk employee) row) ''pin_hash''
          = map_of row ''pin_hash''"
    if "map_of employee ''pin'' = None" "map_of employee ''pin_hash'' = None"
  proof -
    have "map_of (updateEmployee_payload sha clk employee) ''pin_hash'' = None"
      using that by (simp add: updateEmployee_payload_map get_prop_def)
    then have "''pin_hash'' \<notin> fst ` set (updateEmployee_payload sha clk employee)"
      by (simp add: map_of_eq_None_iff)
    then show ?thesis
      by (rule merge_row_other)
  qed
  then show ?thesis
    by (simp add: updateEmployee_request_sends updateEmployee_payload_map get_prop_def
        updateEmployee_round_trip)
qed

theorem updateEmployee_pin_hash_witness:
  "map_of (updateEmployee_payload (\<lambda>p. ''digest'') (\<lambda>k. 7)
       [(''id'', JNum 1), (''pin'', JStr ''4321'')]) ''pin_hash'' = Some (JStr ''digest'')
   \<and> map_of (updateEmployee_payload (\<lambda>p. ''digest'') (\<lambda>k. 7)
       [(''id'', JNum 1), (''name'', JStr ''Ann'')]) ''pin_hash'' = None
   \<and> map_of (merge_row (updateEmployee_payload (\<lambda>p. ''digest'') (\<lambda>k. 7)
       [(''id'', JNum 1), (''name'', JStr ''Ann'')])
         [(''id'', JNum 1), (''pin_hash'', JStr ''current'')]) ''pin_hash''
       = Some (JStr ''current'')"
  using updateEmployee_pin_hash [of "\<lambda>p. ''digest''" "\<lambda>k. 7"
      "[(''id'', JNum 1), (''pin'', JStr ''4321'')]" "[]" mem_store "[(''employees'', [])]"]
    updateEmployee_pin_hash [of "\<lambda>p. ''digest''" "\<lambda>k. 7"
      "[(''id'', JNum 1), (''name'', JStr ''Ann'')]"
      "[(''id'', JNum 1), (''pin_hash'', JStr ''current'')]" mem_store "[(''employees'', [])]"]
  by (simp add: get_prop_def hashPin_def)

text \<open>
  C5: for every employee-update input whose \<^verbatim>\<open>pin\<close> field is present with a falsy value
  (the empty string, say), the payload is the input with \<^verbatim>\<open>updated_at\<close> set and nothing
  else: \<^verbatim>\<open>pin_hash\<close> is not recomputed (it is as the input has it), and the falsy
  \<^verbatim>\<open>pin\<close> itself is in the payload that is sent.
\<close>

theorem updateEmployee_falsy_pin:
  "map_of employee ''pin'' = Some v \<Longrightarrow> \<not> truthy v \<Longrightarrow>
     updateEmployee_payload sha clk employee = set_prop ''updated_at'' (JDate (clk 0)) employee
     \<and> map_of (updateEmployee_payload sha clk employee) ''pin_hash'' = map_of employee ''pin_hash''
     \<and> map_of (updateEmployee_payload sha clk employee) ''pin'' = Some v
     \<and> r_action (updateEmployee_request sha clk employee)
         = Update (updateEmployee_payload sha clk employee)
     \<and> snd (updateEmployee store sha clk employee s)
         = snd (store (updateEmployee_request sha clk employee) s)"
  by (simp add: updateEmployee_request_sends updateEmployee_payload_map
      updateEmployee_round_trip)
     (simp add: updateEmployee_payload_def get_prop_def)

theorem updateEmployee_falsy_pin_witness:
  "updateEmployee_payload (\<lambda>p. ''digest'') (\<lambda>k. 7) [(''id'', JNum 1), (''pin'', JStr '''')]
     = [(''id'', JNum 1), (''pin'', JStr ''''), (''updated_at'', JDate 7)]
   \<and> map_of (updateEmployee_payload (\<lambda>p. ''digest'') (\<lambda>k. 7)
        [(''id'', JNum 1), (''pin'', JStr '''')]) ''pin_hash'' = None
   \<and> map_of (updateEmployee_payload (\<lambda>p. ''digest'') (\<lambda>k. 7)
        [(''id'', JNum 1), (''pin'', JStr '''')]) ''pin'' = Some (JStr '''')"
  using updateEmployee_falsy_pin [of "[(''id'', JNum 1), (''pin'', JStr '''')]" "JStr ''''"
      "\<lambda>p. ''digest''" "\<lambda>k. 7" mem_store "[(''employees'', [])]"]
  by (simp add: set_prop_def)

section \<open>Settings\<close>

text \<open>
  C6: \<^verbatim>\<open>getLowStockThreshold\<close> never throws. It returns \<^verbatim>\<open>null\<close> when the store
  reports an error on the read and when the read finds no row keyed
  \<^verbatim>\<open>"LOW_STOCK_THRESHOLD"\<close>; otherwise it returns the first row.
\<close>

theorem getLowStockThreshold_null:
  "fst (getLowStockThreshold store s) =
     (case fst (store getLowStockThreshold_request s) of
        Inl e \<Rightarrow> Inr JNull
      | Inr [] \<Rightarrow> Inr JNull
      | Inr (r # rs) \<Rightarrow> Inr (JObj r))
   \<and> \<not> isl (fst (getLowStockThreshold store s))
   \<and> r_table getLowStockThreshold_request = ''settings''
   \<and> r_filters getLowStockThreshold_request = [Eq ''setting_key'' (JStr ''LOW_STOCK_THRESHOLD'')]"
  by (simp add: getLowStockThreshold_def await_eq respond_def getLowStockThreshold_request_sends
      split: sum.split list.split)

theorem getLowStockThreshold_null_witness:
  "fst (getLowStockThreshold mem_store
          [(''settings'', [[(''setting_key'', JStr ''THEME''), (''setting_value'', JStr ''dark'')]])])
     = Inr JNull
   \<and> fst (getLowStockThreshold (\<lambda>q s. (Inl [(''message'', JStr ''fetch failed'')], s)) ())
     = Inr JNull"
proof -
  have m: "fst (mem_store getLowStockThreshold_request
          [(''settings'', [[(''setting_key'', JStr ''THEME''), (''setting_value'', JStr ''dark'')]])])
        = Inr []"
    by (simp add: getLowStockThreshold_request_sends mem_store_def hit_def cut_def)
  show ?thesis
    using getLowStockThreshold_null [of mem_store
        "[(''settings'', [[(''setting_key'', JStr ''THEME''), (''setting_value'', JStr ''dark'')]])]"]
      getLowStockThreshold_null [of "\<lambda>q s. (Inl [(''message'', JStr ''fetch failed'')], s)" "()"]
    by (simp add: m)
qed

section \<open>Deletions\<close>

text \<open>
  C9: for every id, \<^verbatim>\<open>deleteTask\<close> and \<^verbatim>\<open>deleteItem\<close> return \<^verbatim>\<open>{success: true}\<close>
  whenever the store reports no error, after the single delete request and nothing else
  (the store is left in the state that request produced): no read precedes the delete, so
  an id that matches no row succeeds as well. A reported error is thrown as it is.
\<close>

theorem delete_succeeds:
  "(\<not> isl (fst (store (deleteTask_request taskId) s)) \<longrightarrow>
      deleteTask store taskId s = (Inr success, snd (store (deleteTask_request taskId) s)))
   \<and> (\<not> isl (fst (store (deleteItem_request ident) s)) \<longrightarrow>
      deleteItem store ident s = (Inr success, snd (store (deleteItem_request ident) s)))
   \<and> (fst (store (deleteTask_request taskId) s) = Inl e \<longrightarrow>
      fst (deleteTask store taskId s) = Inl (Thrown (JObj e)))
   \<and> (fst (store (deleteItem_request ident) s) = Inl e \<longrightarrow>
      fst (deleteItem store ident s) = Inl (Thrown (JObj e)))
   \<and> success = JObj [(''success'', JBool True)]"
  by (auto simp: deleteTask_def deleteItem_def await_eq respond_def success_def
      deleteTask_request_sends deleteItem_request_sends split: sum.split)

theorem delete_succeeds_witness:
  "deleteTask mem_store (JStr ''TASK123'')
      [(''tasks'', [[(''task_id'', JStr ''TASK1'')]]), (''items'', [[(''id'', JNum 1)]])]
     = (Inr (JObj [(''success'', JBool True)]),
        [(''tasks'', [[(''task_id'', JStr ''TASK1'')]]), (''items'', [[(''id'', JNum 1)]])])
   \<and> deleteItem mem_store (JNum 99)
      [(''tasks'', [[(''task_id'', JStr ''TASK1'')]]), (''items'', [[(''id'', JNum 1)]])]
     = (Inr (JObj [(''success'', JBool True)]),
        [(''tasks'', [[(''task_id'', JStr ''TASK1'')]]), (''items'', [[(''id'', JNum 1)]])])"
proof -
  have t: "mem_store (deleteTask_request (JStr ''TASK123''))
      [(''tasks'', [[(''task_id'', JStr ''TASK1'')]]), (''items'', [[(''id'', JNum 1)]])]
     = (Inr [], [(''tasks'', [[(''task_id'', JStr ''TASK1'')]]), (''items'', [[(''id'', JNum 1)]])])"
    by (simp add: deleteTask_request_sends mem_store_def hit_def)
  have i: "mem_store (deleteItem_request (JNum 99))
      [(''tasks'', [[(''task_id'', JStr ''TASK1'')]]), (''items'', [[(''id'', JNum 1)]])]
     = (Inr [], [(''tasks'', [[(''task_id'', JStr ''TASK1'')]]), (''items'', [[(''id'', JNum 1)]])])"
    by (simp add: deleteItem_request_sends mem_store_def hit_def)
  show ?thesis
    using delete_succeeds [of mem_store "JStr ''TASK123''"
        "[(''tasks'', [[(''task_id'', JStr ''TASK1'')]]), (''items'', [[(''id'', JNum 1)]])]"
        "JNum 99" "[]"]
    by (simp add: t i)
qed

section \<open>Searching items\<close>

text \<open>
  C10, as the spec states it: for every query string, \<^verbatim>\<open>searchItems\<close> returns exactly
  the items whose name contains the query, case-insensitively. The query is pasted into
  the pattern unescaped, so its own pattern characters act as wildcards: for the query
  \<^verbatim>\<open>"%"\<close> the pattern is \<^verbatim>\<open>"%%%"\<close>, which the item named \<^verbatim>\<open>"Gadget"\<close> matches
  although its name contains no \<^verbatim>\<open>"%"\<close>.
\<close>

theorem searchItems_wildcard_query:
  "fst (searchItems mem_store ''%'' [(''items'', [[(''name'', JStr ''Gadget'')]])])
     = Inr (JArr [JObj [(''name'', JStr ''Gadget'')]])
   \<and> \<not> name_contains ''%'' [(''name'', JStr ''Gadget'')]"
  by code_simp

text \<open>
  C10, amended: for every query string, \<^verbatim>\<open>searchItems\<close> on the reference store returns
  exactly the items whose name matches the case-insensitive pattern made of \<^verbatim>\<open>%\<close>, the
  query and \<^verbatim>\<open>%\<close>, in table order, and leaves the store as it was. For every query
  string that contains none of the characters \<^verbatim>\<open>%\<close>, \<^verbatim>\<open>_\<close>, backslash and
  \<^verbatim>\<open>*\<close>, these are exactly the items whose name contains the query as a
  case-insensitive substring.
\<close>

theorem searchItems_pattern_query:
  "map_of d ''items'' = Some items \<Longrightarrow>
     searchItems mem_store query d
       = (Inr (JArr (map JObj
            (filter (holds (ILike ''name'' (''%'' @ query @ ''%''))) items))), d)
     \<and> (plain query \<longrightarrow>
          searchItems mem_store query d
            = (Inr (JArr (map JObj (filter (name_contains query) items))), d))"
proof -
  assume t: "map_of d ''items'' = Some items"
  have general: "searchItems mem_store query d
       = (Inr (JArr (map JObj
            (filter (holds (ILike ''name'' (''%'' @ query @ ''%''))) items))), d)"
    by (simp add: searchItems_def await_eq respond_def searchItems_request_fields(4,6)
        mem_store_searchItems [OF t] hit_searchItems)
  have "holds (ILike ''name'' (''%'' @ query @ ''%'')) = name_contains query" if "plain query"
    using hit_searchItems_plain [OF that] by (auto simp: hit_searchItems)
  with general show ?thesis
    by simp
qed

theorem searchItems_pattern_query_witness:
  "plain ''wid''
   \<and> searchItems mem_store ''wid''
        [(''items'', [[(''name'', JStr ''Widget'')], [(''name'', JStr ''Gadget'')],
                      [(''name'', JStr ''WIDGETRY'')]])]
       = (Inr (JArr [JObj [(''name'', JStr ''Widget'')], JObj [(''name'', JStr ''WIDGETRY'')]]),
          [(''items'', [[(''name'', JStr ''Widget'')], [(''name'', JStr ''Gadget'')],
                      [(''name'', JStr ''WIDGETRY'')]])])"
proof -
  have p: "plain ''wid''"
    by (simp add: plain_def backslash_def)
  have t: "map_of [(''items'', [[(''name'', JStr ''Widget'')], [(''name'', JStr ''Gadget'')],
                      [(''name'', JStr ''WIDGETRY'')]])] ''items''
           = Some [[(''name'', JStr ''Widget'')], [(''name'', JStr ''Gadget'')],
              [(''name'', JStr ''WIDGETRY'')]]"
    by simp
  have f: "name_contains ''wid'' [(''name'', JStr ''Widget'')]"
    "\<not> name_contains ''wid'' [(''name'', JStr ''Gadget'')]"
    "name_contains ''wid'' [(''name'', JStr ''WIDGETRY'')]"
    by code_simp+
  show ?thesis
    using searchItems_pattern_query [OF t, of "''wid''", THEN conjunct2]
    by (simp add: p f)
qed

end
